theory Spec2Isabelle
  imports Main
begin

section \<open>The PayPal Website Payments Pro view (pro/views.py)\<close>

text \<open>
  The class \<^verbatim>\<open>PayPalPro\<close> is a callable view: \<^verbatim>\<open>__call__\<close> looks at the
  request and runs one of five methods. The methods talk to collaborators that live
  in other modules (the form classes, \<^verbatim>\<open>PayPalPaymentInfo\<close>, \<^verbatim>\<open>PayPalWPP\<close>,
  \<^verbatim>\<open>urllib.urlencode\<close>); these are taken as parameters, gathered in one record,
  and every call to one of them that changes something is written to a log, in the
  order the view makes the calls.
\<close>

subsection \<open>Data\<close>

text \<open>A Python dict with string keys, and Django's \<^verbatim>\<open>QueryDict\<close> read with
  \<^verbatim>\<open>in\<close> and \<^verbatim>\<open>[...]\<close>. Values are kept as the text \<^verbatim>\<open>str\<close> gives.\<close>

type_synonym pydict = "string \<rightharpoonup> string"

record request =
  http_method :: string
  GET :: pydict
  POST :: pydict

text \<open>A form object: its class, the data it is bound to (\<^verbatim>\<open>cls(data)\<close>) and its
  initial values (\<^verbatim>\<open>cls(initial=...)\<close>); \<^verbatim>\<open>cls()\<close> has neither.\<close>

datatype 'fc form = Form 'fc "pydict option" "pydict option"

datatype 'fc ctxval = CtxForm "'fc form" | CtxStr string

type_synonym 'fc template_context = "string \<rightharpoonup> 'fc ctxval"

text \<open>What a view returns: \<^verbatim>\<open>HttpResponseRedirect(url)\<close> or
  \<^verbatim>\<open>render_to_response(template, context, RequestContext(request))\<close>.\<close>

datatype 'fc response =
    HttpResponseRedirect string
  | Rendered string "'fc template_context" request

text \<open>The exceptions the view itself can raise: a missing dict key, subscripting
  \<^verbatim>\<open>None\<close>, and a missing attribute (\<^verbatim>\<open>None.update\<close>, or \<^verbatim>\<open>self.request\<close>
  before any call has set it).\<close>

datatype error = KeyError string | TypeError | AttributeError

text \<open>The calls to collaborators that the log records; \<^verbatim>\<open>'r\<close> is the payment
  record (\<^verbatim>\<open>PayPalPaymentInfo\<close>), logged by \<^verbatim>\<open>save\<close> as it is when saved.
  Building a form or a \<^verbatim>\<open>PayPalWPP\<close>, \<^verbatim>\<open>is_valid\<close>, \<^verbatim>\<open>errors\<close> and
  \<^verbatim>\<open>form.save(commit=False)\<close> only read or build objects and are not logged.\<close>

datatype 'r event =
    SetFlag string
  | Init
  | Process "pydict option"
  | Save 'r
  | SetExpressCheckout "pydict option"
  | DoExpressCheckoutPayment "pydict option"

record ('fc, 'r) collaborators =
  form_is_valid :: "'fc form \<Rightarrow> bool"
  form_errors :: "'fc form \<Rightarrow> string"
  form_save :: "'fc form \<Rightarrow> 'r"
  PayPalPaymentInfo :: 'r
  set_flag :: "string \<Rightarrow> 'r \<Rightarrow> 'r"
  init :: "request \<Rightarrow> 'r \<Rightarrow> 'r"
  process :: "request \<Rightarrow> pydict option \<Rightarrow> 'r \<Rightarrow> bool \<times> 'r"
  setExpressCheckout :: "request \<Rightarrow> pydict option \<Rightarrow> pydict"
  doExpressCheckoutPayment :: "request \<Rightarrow> pydict option \<Rightarrow> pydict"
  urlencode :: "pydict \<Rightarrow> string"

text \<open>The instance. \<^verbatim>\<open>item\<close> and \<^verbatim>\<open>fail_url\<close> may be \<^verbatim>\<open>None\<close>; \<^verbatim>\<open>request\<close>
  is an attribute only once \<^verbatim>\<open>__call__\<close> has run.\<close>

record 'fc PayPalPro =
  item :: "pydict option"
  payment_form_cls :: 'fc
  payment_template :: string
  confirm_form_cls :: 'fc
  confirm_template :: string
  success_url :: string
  fail_url :: "string option"
  express_endpoint :: string
  request :: "request option"

type_synonym ('fc, 'r) outcome = "(error + 'fc response) \<times> 'fc PayPalPro \<times> 'r event list"

subsection \<open>Module constants and string formatting\<close>

definition EXPRESS_ENDPOINT :: string where
  "EXPRESS_ENDPOINT = ''https://www.paypal.com/webscr?cmd=_express-checkout&%s''"

definition SANDBOX_EXPRESS_ENDPOINT :: string where
  "SANDBOX_EXPRESS_ENDPOINT = ''https://www.sandbox.paypal.com/webscr?cmd=_express-checkout&%s''"

text \<open>\<^verbatim>\<open>fmt % arg\<close> for a format whose only conversion is one \<^verbatim>\<open>%s\<close>, as both
  endpoint constants are: the argument takes the place of the \<^verbatim>\<open>%s\<close>.\<close>

fun percent_s :: "string \<Rightarrow> string \<Rightarrow> string" where
  "percent_s [] arg = []"
| "percent_s [c] arg = [c]"
| "percent_s (c # d # rest) arg =
     (if c = CHR ''%'' \<and> d = CHR ''s'' then arg @ rest else c # percent_s (d # rest) arg)"

subsection \<open>The view\<close>

text \<open>\<^verbatim>\<open>__init__\<close>, with every keyword argument passed explicitly (the source's defaults
  are \<^verbatim>\<open>item=None\<close>, \<^verbatim>\<open>success_url="?success"\<close>, \<^verbatim>\<open>fail_url=None\<close>,
  \<^verbatim>\<open>test=True\<close>).\<close>

definition PayPalPro_init ::
  "pydict option \<Rightarrow> 'fc \<Rightarrow> string \<Rightarrow> 'fc \<Rightarrow> string \<Rightarrow> string \<Rightarrow> string option \<Rightarrow> bool
     \<Rightarrow> 'fc PayPalPro" where
  "PayPalPro_init item_arg payment_form_cls_arg payment_template_arg confirm_form_cls_arg
       confirm_template_arg success_url_arg fail_url_arg test =
     \<lparr> item = item_arg,
       payment_form_cls = payment_form_cls_arg,
       payment_template = payment_template_arg,
       confirm_form_cls = confirm_form_cls_arg,
       confirm_template = confirm_template_arg,
       success_url = success_url_arg,
       fail_url = fail_url_arg,
       express_endpoint = (if test then SANDBOX_EXPRESS_ENDPOINT else EXPRESS_ENDPOINT),
       request = None \<rparr>"

text \<open>\<^verbatim>\<open>context or {}\<close>: \<^verbatim>\<open>None\<close> and the empty dict both give an empty dict.\<close>

definition context_or_empty :: "'fc template_context option \<Rightarrow> 'fc template_context" where
  "context_or_empty context = (case context of None \<Rightarrow> Map.empty | Some c \<Rightarrow> c)"

definition render_payment_form ::
  "'fc PayPalPro \<Rightarrow> 'r event list \<Rightarrow> 'fc template_context option \<Rightarrow> ('fc, 'r) outcome" where
  "render_payment_form self log context =
     (let context = context_or_empty context;
          context = context(''form'' \<mapsto> CtxForm (Form (payment_form_cls self) None None))
      in case request self of
           None \<Rightarrow> (Inl AttributeError, self, log)
         | Some req \<Rightarrow> (Inr (Rendered (payment_template self) context req), self, log))"

definition validate_payment_form ::
  "('fc, 'r) collaborators \<Rightarrow> 'fc PayPalPro \<Rightarrow> 'r event list \<Rightarrow> 'fc template_context option
     \<Rightarrow> ('fc, 'r) outcome" where
  "validate_payment_form env self log context =
     (case request self of
        None \<Rightarrow> (Inl AttributeError, self, log)
      | Some req \<Rightarrow>
          let form = Form (payment_form_cls self) (Some (POST req)) None;
              (failed, payment_obj, log) =
                (if form_is_valid env form
                 then (False, form_save env form, log)
                 else let flag = ''Bad form data: '' @ form_errors env form
                      in (True, set_flag env flag (PayPalPaymentInfo env), log @ [SetFlag flag]));
              payment_obj = init env req payment_obj;
              log = log @ [Init];
              (success, payment_obj, log) =
                (if \<not> failed
                 then let (ok, obj) = process env req (item self) payment_obj
                      in (ok, obj, log @ [Process (item self)])
                 else (False, payment_obj, log));
              log = log @ [Save payment_obj]
          in if success then (Inr (HttpResponseRedirect (success_url self)), self, log)
             else (case fail_url self of
                     Some url \<Rightarrow> (Inr (HttpResponseRedirect url), self, log)
                   | None \<Rightarrow>
                       let context = context_or_empty context;
                           context = context(''form'' \<mapsto> CtxForm form);
                           context = context(''errors'' \<mapsto>
                                       CtxStr ''Please correct the errors below and try again.'')
                       in (Inr (Rendered (payment_template self) context req), self, log)))"

definition redirect_to_express ::
  "('fc, 'r) collaborators \<Rightarrow> 'fc PayPalPro \<Rightarrow> 'r event list \<Rightarrow> ('fc, 'r) outcome" where
  "redirect_to_express env self log =
     (case request self of
        None \<Rightarrow> (Inl AttributeError, self, log)
      | Some req \<Rightarrow>
          let response = setExpressCheckout env req (item self);
              log = log @ [SetExpressCheckout (item self)]
          in if response ''ACK'' = Some ''Success'' \<and> ''TOKEN'' \<in> dom response
             then case response ''TOKEN'' of
                    None \<Rightarrow> (Inl (KeyError ''TOKEN''), self, log)
                  | Some token \<Rightarrow>
                 (case item self of
                    None \<Rightarrow> (Inl TypeError, self, log)
                  | Some it \<Rightarrow>
                 (case it ''amt'' of
                    None \<Rightarrow> (Inl (KeyError ''amt''), self, log)
                  | Some amt \<Rightarrow>
                 (case it ''returnurl'' of
                    None \<Rightarrow> (Inl (KeyError ''returnurl''), self, log)
                  | Some returnurl \<Rightarrow>
                 (case it ''cancelurl'' of
                    None \<Rightarrow> (Inl (KeyError ''cancelurl''), self, log)
                  | Some cancelurl \<Rightarrow>
                      let pp_params = [''token'' \<mapsto> token, ''AMT'' \<mapsto> amt,
                                       ''RETURNURL'' \<mapsto> returnurl, ''CANCELURL'' \<mapsto> cancelurl];
                          pp_url = percent_s SANDBOX_EXPRESS_ENDPOINT (urlencode env pp_params)
                      in (Inr (HttpResponseRedirect pp_url), self, log)))))
             else let context = [''errors'' \<mapsto>
                        CtxStr ''There was a problem contacting PayPal. Please try again later.'']
                  in render_payment_form self log (Some context))"

definition render_confirm_form ::
  "'fc PayPalPro \<Rightarrow> 'r event list \<Rightarrow> 'fc template_context option \<Rightarrow> ('fc, 'r) outcome" where
  "render_confirm_form self log context =
     (let context = context_or_empty context
      in case request self of
           None \<Rightarrow> (Inl AttributeError, self, log)
         | Some req \<Rightarrow>
        (case GET req ''token'' of
           None \<Rightarrow> (Inl (KeyError ''token''), self, log)
         | Some token \<Rightarrow>
        (case GET req ''PayerID'' of
           None \<Rightarrow> (Inl (KeyError ''PayerID''), self, log)
         | Some payerid \<Rightarrow>
             let initial = [''token'' \<mapsto> token, ''PayerID'' \<mapsto> payerid];
                 context = context(''form'' \<mapsto>
                             CtxForm (Form (confirm_form_cls self) None (Some initial)))
             in (Inr (Rendered (confirm_template self) context req), self, log))))"

definition validate_confirm_form ::
  "('fc, 'r) collaborators \<Rightarrow> 'fc PayPalPro \<Rightarrow> 'r event list \<Rightarrow> ('fc, 'r) outcome" where
  "validate_confirm_form env self log =
     (case request self of
        None \<Rightarrow> (Inl AttributeError, self, log)
      | Some req \<Rightarrow>
     (case POST req ''token'' of
        None \<Rightarrow> (Inl (KeyError ''token''), self, log)
      | Some token \<Rightarrow>
     (case POST req ''PayerID'' of
        None \<Rightarrow> (Inl (KeyError ''PayerID''), self, log)
      | Some payerid \<Rightarrow>
     (case item self of
        None \<Rightarrow> (Inl AttributeError, self, log)
      | Some it \<Rightarrow>
          let self = self\<lparr>item := Some (it(''token'' \<mapsto> token, ''payerid'' \<mapsto> payerid))\<rparr>;
              response = doExpressCheckoutPayment env req (item self);
              log = log @ [DoExpressCheckoutPayment (item self)]
          in if response ''ACK'' = Some ''Success''
             then (Inr (HttpResponseRedirect (success_url self)), self, log)
             else let context = [''errors'' \<mapsto> CtxStr
                        ''There was a problem processing the payment. Please check your information and try again.'']
                  in render_payment_form self log (Some context)))))"

definition call ::
  "('fc, 'r) collaborators \<Rightarrow> 'fc PayPalPro \<Rightarrow> 'r event list \<Rightarrow> request \<Rightarrow> ('fc, 'r) outcome" where
  "call env self log req =
     (let self = self\<lparr>request := Some req\<rparr>
      in if http_method req = ''GET''
         then if ''express'' \<in> dom (GET req) then redirect_to_express env self log
              else if ''token'' \<in> dom (GET req) \<and> ''PayerID'' \<in> dom (GET req)
                   then render_confirm_form self log None
                   else render_payment_form self log None
         else if ''token'' \<in> dom (POST req) \<and> ''PayerID'' \<in> dom (POST req)
              then validate_confirm_form env self log
              else validate_payment_form env self log None)"

subsection \<open>Reading the log\<close>

fun is_Init :: "'r event \<Rightarrow> bool" where
  "is_Init Init = True"
| "is_Init _ = False"

fun is_Process :: "'r event \<Rightarrow> bool" where
  "is_Process (Process _) = True"
| "is_Process _ = False"

fun is_Save :: "'r event \<Rightarrow> bool" where
  "is_Save (Save _) = True"
| "is_Save _ = False"

subsection \<open>The dispatch contract as the specification words it\<close>

datatype handler =
    InitiateExpress
  | RenderConfirm
  | RenderPaymentForm
  | ConfirmExpressPayment
  | ValidateDirectPayment

text \<open>The specification's routing table: it speaks of reads (GET) and writes (POST)
  and of no other method.\<close>

definition spec_route :: "request \<Rightarrow> handler option" where
  "spec_route req =
     (if http_method req = ''GET'' then
        (if ''express'' \<in> dom (GET req) then Some InitiateExpress
         else if ''token'' \<in> dom (GET req) \<and> ''PayerID'' \<in> dom (GET req) then Some RenderConfirm
         else Some RenderPaymentForm)
      else if http_method req = ''POST'' then
        (if ''token'' \<in> dom (POST req) \<and> ''PayerID'' \<in> dom (POST req)
         then Some ConfirmExpressPayment
         else Some ValidateDirectPayment)
      else None)"

text \<open>Running one handler, the way \<^verbatim>\<open>__call__\<close> invokes it (no context argument).\<close>

fun run_handler ::
  "('fc, 'r) collaborators \<Rightarrow> 'fc PayPalPro \<Rightarrow> 'r event list \<Rightarrow> handler \<Rightarrow> ('fc, 'r) outcome" where
  "run_handler env self log InitiateExpress = redirect_to_express env self log"
| "run_handler env self log RenderConfirm = render_confirm_form self log None"
| "run_handler env self log RenderPaymentForm = render_payment_form self log None"
| "run_handler env self log ConfirmExpressPayment = validate_confirm_form env self log"
| "run_handler env self log ValidateDirectPayment = validate_payment_form env self log None"

subsection \<open>Concrete collaborators and requests for evaluation\<close>

text \<open>A payment record that keeps a journal of what was done to it, a gateway that
  answers as told, and a stand-in for \<^verbatim>\<open>urlencode\<close> that joins the four express
  parameters without escaping. They serve only to run the view on concrete inputs.\<close>

definition urlencode_plain :: "pydict \<Rightarrow> string" where
  "urlencode_plain d =
     (let val = (\<lambda>k. case d k of None \<Rightarrow> [] | Some v \<Rightarrow> v)
      in ''token='' @ val ''token'' @ ''&AMT='' @ val ''AMT''
           @ ''&RETURNURL='' @ val ''RETURNURL'' @ ''&CANCELURL='' @ val ''CANCELURL'')"

definition journal_env :: "bool \<Rightarrow> bool \<Rightarrow> pydict \<Rightarrow> (string, string list) collaborators" where
  "journal_env valid paid answer =
     \<lparr> form_is_valid = (\<lambda>_. valid),
       form_errors = (\<lambda>_. ''acct: This field is required.''),
       form_save = (\<lambda>_. [''from form'']),
       PayPalPaymentInfo = [],
       set_flag = (\<lambda>flag obj. obj @ [flag]),
       init = (\<lambda>_ obj. obj @ [''init'']),
       process = (\<lambda>_ _ obj. (paid, obj @ [''process''])),
       setExpressCheckout = (\<lambda>_ _. answer),
       doExpressCheckoutPayment = (\<lambda>_ _. answer),
       urlencode = urlencode_plain \<rparr>"

definition shop_item :: pydict where
  "shop_item = [''amt'' \<mapsto> ''10.00'', ''returnurl'' \<mapsto> ''http://shop/ok'',
                ''cancelurl'' \<mapsto> ''http://shop/no'']"

definition shop_view :: "bool \<Rightarrow> string PayPalPro" where
  "shop_view test =
     PayPalPro_init (Some shop_item) ''PaymentForm'' ''pro/payment.html'' ''ConfirmForm''
       ''pro/confirm.html'' ''?success'' None test"

definition get_express :: request where
  "get_express = \<lparr> http_method = ''GET'', GET = [''express'' \<mapsto> ''1''], POST = Map.empty \<rparr>"

definition get_confirm :: request where
  "get_confirm = \<lparr> http_method = ''GET'', GET = [''token'' \<mapsto> ''abc'', ''PayerID'' \<mapsto> ''P1''],
                    POST = Map.empty \<rparr>"

definition post_confirm :: request where
  "post_confirm = \<lparr> http_method = ''POST'', GET = Map.empty,
                     POST = [''token'' \<mapsto> ''abc'', ''PayerID'' \<mapsto> ''P1''] \<rparr>"

definition post_direct :: request where
  "post_direct = \<lparr> http_method = ''POST'', GET = Map.empty, POST = [''acct'' \<mapsto> ''4111''] \<rparr>"

definition ack_success :: pydict where
  "ack_success = [''ACK'' \<mapsto> ''Success'', ''TOKEN'' \<mapsto> ''abc'']"

definition ack_failure :: pydict where
  "ack_failure = [''ACK'' \<mapsto> ''Failure'']"

section \<open>Properties\<close>

subsection \<open>Helper facts\<close>

lemma percent_s_SANDBOX:
  "percent_s SANDBOX_EXPRESS_ENDPOINT q =
     ''https://www.sandbox.paypal.com/webscr?cmd=_express-checkout&'' @ q"
  by (simp add: SANDBOX_EXPRESS_ENDPOINT_def)

lemma call_routes:
  "call env self log req =
     (if http_method req = ''GET''
      then if ''express'' \<in> dom (GET req)
           then redirect_to_express env (self\<lparr>request := Some req\<rparr>) log
           else if ''token'' \<in> dom (GET req) \<and> ''PayerID'' \<in> dom (GET req)
                then render_confirm_form (self\<lparr>request := Some req\<rparr>) log None
                else render_payment_form (self\<lparr>request := Some req\<rparr>) log None
      else if ''token'' \<in> dom (POST req) \<and> ''PayerID'' \<in> dom (POST req)
           then validate_confirm_form env (self\<lparr>request := Some req\<rparr>) log
           else validate_payment_form env (self\<lparr>request := Some req\<rparr>) log None)"
  by (simp add: call_def Let_def)

lemma validate_payment_form_valid:
  assumes "request self = Some req"
    and "form_is_valid env (Form (payment_form_cls self) (Some (POST req)) None)"
  shows "validate_payment_form env self log context =
     (let form = Form (payment_form_cls self) (Some (POST req)) None;
          done = process env req (item self) (init env req (form_save env form));
          log' = log @ [Init, Process (item self), Save (snd done)]
      in if fst done then (Inr (HttpResponseRedirect (success_url self)), self, log')
         else (case fail_url self of
                 Some url \<Rightarrow> (Inr (HttpResponseRedirect url), self, log')
               | None \<Rightarrow> (Inr (Rendered (payment_template self)
                            ((context_or_empty context)(''form'' \<mapsto> CtxForm form,
                               ''errors'' \<mapsto> CtxStr ''Please correct the errors below and try again.''))
                            req), self, log')))"
  using assms by (simp add: validate_payment_form_def Let_def split: prod.splits option.splits)

lemma validate_payment_form_invalid:
  assumes "request self = Some req"
    and "\<not> form_is_valid env (Form (payment_form_cls self) (Some (POST req)) None)"
  shows "validate_payment_form env self log context =
     (let form = Form (payment_form_cls self) (Some (POST req)) None;
          flag = ''Bad form data: '' @ form_errors env form;
          obj = init env req (set_flag env flag (PayPalPaymentInfo env));
          log' = log @ [SetFlag flag, Init, Save obj]
      in (case fail_url self of
                 Some url \<Rightarrow> (Inr (HttpResponseRedirect url), self, log')
               | None \<Rightarrow> (Inr (Rendered (payment_template self)
                            ((context_or_empty context)(''form'' \<mapsto> CtxForm form,
                               ''errors'' \<mapsto> CtxStr ''Please correct the errors below and try again.''))
                            req), self, log')))"
  using assms by (simp add: validate_payment_form_def Let_def split: prod.splits option.splits)

lemma call_direct:
  assumes "http_method req \<noteq> ''GET''"
    and "\<not> (''token'' \<in> dom (POST req) \<and> ''PayerID'' \<in> dom (POST req))"
  shows "call env self log req = validate_payment_form env (self\<lparr>request := Some req\<rparr>) log None"
  using assms by (auto simp: call_routes)

lemma validate_payment_form_log:
  assumes "request self = Some req"
  shows "\<exists>resp before obj. validate_payment_form env self log context
            = (Inr resp, self, log @ before @ [Save obj]) \<and> filter is_Save before = []"
proof (cases "form_is_valid env (Form (payment_form_cls self) (Some (POST req)) None)")
  case True
  show ?thesis
    unfolding validate_payment_form_valid [OF assms True] Let_def
    by (cases "fail_url self") (auto intro: exI [of _ "[Init, Process (item self)]"])
next
  case False
  show ?thesis
    unfolding validate_payment_form_invalid [OF assms False] Let_def
    by (cases "fail_url self") (auto intro: exI [of _ "[SetFlag _, Init]"])
qed

subsection \<open>The direct flow\<close>

text \<open>
  C2. Every request that \<^verbatim>\<open>__call__\<close> hands to \<^verbatim>\<open>validate_payment_form\<close> ends in a
  response, and what the call adds to the log ends with one \<^verbatim>\<open>save\<close> of the payment record
  and contains no other: the record is persisted exactly once, before the response is
  returned, whether the form was invalid, the gateway refused or the gateway accepted.
\<close>

theorem direct_payment_saved_exactly_once:
  assumes "http_method req \<noteq> ''GET''"
    and "\<not> (''token'' \<in> dom (POST req) \<and> ''PayerID'' \<in> dom (POST req))"
  shows "\<exists>resp self' before obj.
           call env self log req = (Inr resp, self', log @ before @ [Save obj])
           \<and> filter is_Save before = []"
proof -
  have "request (self\<lparr>request := Some req\<rparr>) = Some req" by simp
  from validate_payment_form_log [OF this, of env log None]
  show ?thesis unfolding call_direct [OF assms] by blast
qed

theorem direct_payment_saved_exactly_once_witness:
  "http_method post_direct \<noteq> ''GET''
   \<and> \<not> (''token'' \<in> dom (POST post_direct) \<and> ''PayerID'' \<in> dom (POST post_direct))
   \<and> (\<exists>resp self' before obj.
          call (journal_env False False ack_failure) (shop_view True) [] post_direct
            = (Inr resp, self', [] @ before @ [Save obj])
          \<and> filter is_Save before = [])"
  using direct_payment_saved_exactly_once
          [of post_direct "journal_env False False ack_failure" "shop_view True" "[]"]
  by (simp add: post_direct_def)

text \<open>
  C4. When \<^verbatim>\<open>__call__\<close> hands a request to \<^verbatim>\<open>validate_payment_form\<close> and the form is
  not valid, the calls made are exactly: \<^verbatim>\<open>set_flag\<close> with the text
  \<^verbatim>\<open>"Bad form data: "\<close> followed by the form's errors, \<^verbatim>\<open>init\<close>, and one \<^verbatim>\<open>save\<close>
  of the fresh \<^verbatim>\<open>PayPalPaymentInfo()\<close> so flagged and initialised. \<^verbatim>\<open>process\<close> is not
  called.
\<close>

theorem invalid_form_flagged_saved_never_processed:
  assumes "http_method req \<noteq> ''GET''"
    and "\<not> (''token'' \<in> dom (POST req) \<and> ''PayerID'' \<in> dom (POST req))"
    and "\<not> form_is_valid env (Form (payment_form_cls self) (Some (POST req)) None)"
  shows "snd (snd (call env self log req)) =
           (let flag = ''Bad form data: ''
                         @ form_errors env (Form (payment_form_cls self) (Some (POST req)) None)
            in log @ [SetFlag flag, Init,
                      Save (init env req (set_flag env flag (PayPalPaymentInfo env)))])"
proof -
  let ?self = "self\<lparr>request := Some req\<rparr>"
  have r: "request ?self = Some req" by simp
  have v: "\<not> form_is_valid env (Form (payment_form_cls ?self) (Some (POST req)) None)"
    using assms(3) by simp
  show ?thesis
    unfolding call_direct [OF assms(1,2)] validate_payment_form_invalid [OF r v]
    by (simp add: Let_def split: option.splits)
qed

theorem invalid_form_flagged_saved_never_processed_witness:
  "http_method post_direct \<noteq> ''GET''
   \<and> \<not> (''token'' \<in> dom (POST post_direct) \<and> ''PayerID'' \<in> dom (POST post_direct))
   \<and> \<not> form_is_valid (journal_env False True ack_success)
          (Form (payment_form_cls (shop_view True)) (Some (POST post_direct)) None)
   \<and> snd (snd (call (journal_env False True ack_success) (shop_view True) [] post_direct)) =
        [SetFlag ''Bad form data: acct: This field is required.'', Init,
         Save [''Bad form data: acct: This field is required.'', ''init'']]"
  using invalid_form_flagged_saved_never_processed
          [of post_direct "journal_env False True ack_success" "shop_view True" "[]"]
  by (simp add: post_direct_def journal_env_def Let_def)

text \<open>
  C10. On every request handed to \<^verbatim>\<open>validate_payment_form\<close> the calls added to the log
  have the shape: some calls, \<^verbatim>\<open>init\<close>, some calls, \<^verbatim>\<open>save\<close>; there is no other
  \<^verbatim>\<open>init\<close> and no other \<^verbatim>\<open>save\<close>, and no \<^verbatim>\<open>process\<close> before the \<^verbatim>\<open>init\<close>. When
  the form is not valid, \<^verbatim>\<open>init\<close> is applied to the flagged fresh record and that is
  what is saved.
\<close>

theorem init_once_before_save_and_before_process:
  assumes "http_method req \<noteq> ''GET''"
    and "\<not> (''token'' \<in> dom (POST req) \<and> ''PayerID'' \<in> dom (POST req))"
  shows "\<exists>before between obj.
           snd (snd (call env self log req)) = log @ before @ [Init] @ between @ [Save obj]
           \<and> filter is_Init (before @ between) = []
           \<and> filter is_Save (before @ between) = []
           \<and> filter is_Process before = []
           \<and> (\<not> form_is_valid env (Form (payment_form_cls self) (Some (POST req)) None) \<longrightarrow>
                 (\<exists>flag. before = [SetFlag flag] \<and> between = []
                    \<and> obj = init env req (set_flag env flag (PayPalPaymentInfo env))))"
proof (cases "form_is_valid env (Form (payment_form_cls self) (Some (POST req)) None)")
  case True
  let ?self = "self\<lparr>request := Some req\<rparr>"
  have r: "request ?self = Some req" by simp
  have v: "form_is_valid env (Form (payment_form_cls ?self) (Some (POST req)) None)"
    using True by simp
  have "\<exists>obj. snd (snd (call env self log req))
           = log @ [] @ [Init] @ [Process (item self)] @ [Save obj]"
    unfolding call_direct [OF assms] validate_payment_form_valid [OF r v]
    by (simp add: Let_def split: option.splits)
  then obtain obj where "snd (snd (call env self log req))
           = log @ [] @ [Init] @ [Process (item self)] @ [Save obj]" ..
  with True show ?thesis
    by (intro exI [of _ "[]"] exI [of _ "[Process (item self)]"] exI [of _ obj]) simp
next
  case False
  let ?flag = "''Bad form data: ''
                 @ form_errors env (Form (payment_form_cls self) (Some (POST req)) None)"
  let ?obj = "init env req (set_flag env ?flag (PayPalPaymentInfo env))"
  let ?self = "self\<lparr>request := Some req\<rparr>"
  have r: "request ?self = Some req" by simp
  have v: "\<not> form_is_valid env (Form (payment_form_cls ?self) (Some (POST req)) None)"
    using False by simp
  have "snd (snd (call env self log req)) = log @ [SetFlag ?flag] @ [Init] @ [] @ [Save ?obj]"
    unfolding call_direct [OF assms] validate_payment_form_invalid [OF r v]
    by (simp add: Let_def split: option.splits)
  then show ?thesis
    by (intro exI [of _ "[SetFlag ?flag]"] exI [of _ "[]"] exI [of _ ?obj]) simp
qed

theorem init_once_before_save_and_before_process_witness:
  "http_method post_direct \<noteq> ''GET''
   \<and> \<not> (''token'' \<in> dom (POST post_direct) \<and> ''PayerID'' \<in> dom (POST post_direct))
   \<and> \<not> form_is_valid (journal_env False True ack_success)
          (Form (payment_form_cls (shop_view True)) (Some (POST post_direct)) None)
   \<and> (\<exists>before between obj.
         snd (snd (call (journal_env False True ack_success) (shop_view True) [] post_direct))
           = [] @ before @ [Init] @ between @ [Save obj]
         \<and> filter is_Init (before @ between) = []
         \<and> filter is_Save (before @ between) = []
         \<and> filter is_Process before = []
         \<and> (\<exists>flag. before = [SetFlag flag] \<and> between = []
                \<and> obj = init (journal_env False True ack_success) post_direct
                          (set_flag (journal_env False True ack_success) flag
                             (PayPalPaymentInfo (journal_env False True ack_success)))))"
  using init_once_before_save_and_before_process
          [of post_direct "journal_env False True ack_success" "shop_view True" "[]"]
  by (simp add: post_direct_def journal_env_def)

text \<open>
  C5. The response of \<^verbatim>\<open>validate_payment_form\<close>: processing succeeded (the form was
  valid and \<^verbatim>\<open>process\<close> returned true) gives a redirect to \<^verbatim>\<open>success_url\<close>; otherwise
  a configured \<^verbatim>\<open>fail_url\<close> gives a redirect to it; otherwise the payment template is
  rendered with the form bound to the submitted POST data and the fixed, non-empty
  message asking to correct the errors.
\<close>

theorem direct_payment_outcome:
  assumes "http_method req \<noteq> ''GET''"
    and "\<not> (''token'' \<in> dom (POST req) \<and> ''PayerID'' \<in> dom (POST req))"
  shows "fst (call env self log req) =
           (let form = Form (payment_form_cls self) (Some (POST req)) None;
                success = (form_is_valid env form
                           \<and> fst (process env req (item self) (init env req (form_save env form))))
            in Inr (if success then HttpResponseRedirect (success_url self)
                    else case fail_url self of
                           Some url \<Rightarrow> HttpResponseRedirect url
                         | None \<Rightarrow>
                             Rendered (payment_template self)
                               [''form'' \<mapsto> CtxForm form,
                                ''errors'' \<mapsto> CtxStr ''Please correct the errors below and try again.'']
                               req))"
proof (cases "form_is_valid env (Form (payment_form_cls self) (Some (POST req)) None)")
  case True
  let ?self = "self\<lparr>request := Some req\<rparr>"
  have r: "request ?self = Some req" by simp
  have v: "form_is_valid env (Form (payment_form_cls ?self) (Some (POST req)) None)"
    using True by simp
  show ?thesis
    unfolding call_direct [OF assms] validate_payment_form_valid [OF r v]
    using True by (simp add: Let_def context_or_empty_def split: option.splits)
next
  case False
  let ?self = "self\<lparr>request := Some req\<rparr>"
  have r: "request ?self = Some req" by simp
  have v: "\<not> form_is_valid env (Form (payment_form_cls ?self) (Some (POST req)) None)"
    using False by simp
  show ?thesis
    unfolding call_direct [OF assms] validate_payment_form_invalid [OF r v]
    using False by (simp add: Let_def context_or_empty_def split: option.splits)
qed

theorem direct_payment_outcome_witness:
  "http_method post_direct \<noteq> ''GET''
   \<and> \<not> (''token'' \<in> dom (POST post_direct) \<and> ''PayerID'' \<in> dom (POST post_direct))
   \<and> fst (call (journal_env True False ack_failure) (shop_view True) [] post_direct) =
       Inr (Rendered ''pro/payment.html''
              [''form'' \<mapsto> CtxForm (Form ''PaymentForm'' (Some (POST post_direct)) None),
               ''errors'' \<mapsto> CtxStr ''Please correct the errors below and try again.'']
              post_direct)"
  using direct_payment_outcome
          [of post_direct "journal_env True False ack_failure" "shop_view True" "[]"]
  by (simp add: post_direct_def journal_env_def shop_view_def PayPalPro_init_def)

subsection \<open>Dispatch\<close>

lemma validate_confirm_form_log:
  "snd (snd (validate_confirm_form env self log)) = log
   \<or> (\<exists>it. snd (snd (validate_confirm_form env self log)) = log @ [DoExpressCheckoutPayment it])"
  by (simp add: validate_confirm_form_def render_payment_form_def Let_def split: option.splits)

lemma confirm_differs_from_direct:
  assumes "request self = Some req"
  shows "validate_confirm_form env self log \<noteq> validate_payment_form env self log context"
proof
  assume eq: "validate_confirm_form env self log = validate_payment_form env self log context"
  from validate_payment_form_log [OF assms, of env log "context"]
  obtain before obj where
    "snd (snd (validate_payment_form env self log context)) = log @ before @ [Save obj]"
    by force
  with eq have s: "snd (snd (validate_confirm_form env self log)) = log @ before @ [Save obj]"
    by simp
  from validate_confirm_form_log [of env self log] show False
  proof
    assume "snd (snd (validate_confirm_form env self log)) = log"
    with s show False by simp
  next
    assume "\<exists>it. snd (snd (validate_confirm_form env self log))
                  = log @ [DoExpressCheckoutPayment it]"
    then obtain it where "log @ before @ [Save obj] = log @ [DoExpressCheckoutPayment it]"
      using s by auto
    then have "before @ [Save obj] = [DoExpressCheckoutPayment it]" by simp
    then have "last (before @ [Save obj]) = last [DoExpressCheckoutPayment it]" by simp
    then show False by simp
  qed
qed

text \<open>
  C1. \<^verbatim>\<open>__call__\<close> follows the specification's routing table: whatever handler the table
  names for a GET or POST request is the one method \<^verbatim>\<open>__call__\<close> runs, and its outcome is
  the outcome of the call. In particular a POST whose body holds both \<^verbatim>\<open>token\<close> and
  \<^verbatim>\<open>PayerID\<close> gives the outcome of \<^verbatim>\<open>validate_confirm_form\<close>, which is never that of
  \<^verbatim>\<open>validate_payment_form\<close>, whatever else the body holds.
\<close>

theorem call_follows_spec_route:
  assumes "spec_route req = Some h"
  shows "call env self log req = run_handler env (self\<lparr>request := Some req\<rparr>) log h
         \<and> (http_method req = ''POST'' \<and> ''token'' \<in> dom (POST req) \<and> ''PayerID'' \<in> dom (POST req)
              \<longrightarrow> h = ConfirmExpressPayment
                \<and> call env self log req
                      = validate_confirm_form env (self\<lparr>request := Some req\<rparr>) log
                \<and> call env self log req
                      \<noteq> validate_payment_form env (self\<lparr>request := Some req\<rparr>) log None)"
proof -
  let ?self = "self\<lparr>request := Some req\<rparr>"
  have run: "call env self log req = run_handler env ?self log h"
    using assms by (auto simp: call_routes spec_route_def split: if_splits)
  have r: "request ?self = Some req" by simp
  have "h = ConfirmExpressPayment
        \<and> call env self log req = validate_confirm_form env ?self log
        \<and> call env self log req \<noteq> validate_payment_form env ?self log None"
    if "http_method req = ''POST''" "''token'' \<in> dom (POST req)" "''PayerID'' \<in> dom (POST req)"
  proof -
    have h: "h = ConfirmExpressPayment"
      using assms that by (simp add: spec_route_def)
    have c: "call env self log req = validate_confirm_form env ?self log"
      using that by (simp add: call_routes)
    show ?thesis
      using h c confirm_differs_from_direct [OF r, of env log None] by simp
  qed
  with run show ?thesis by blast
qed

theorem call_follows_spec_route_witness:
  "spec_route post_confirm = Some ConfirmExpressPayment
   \<and> http_method post_confirm = ''POST''
   \<and> ''token'' \<in> dom (POST post_confirm) \<and> ''PayerID'' \<in> dom (POST post_confirm)
   \<and> call (journal_env True True ack_success) (shop_view True) [] post_confirm
       = validate_confirm_form (journal_env True True ack_success)
           ((shop_view True)\<lparr>request := Some post_confirm\<rparr>) []
   \<and> call (journal_env True True ack_success) (shop_view True) [] post_confirm
       \<noteq> validate_payment_form (journal_env True True ack_success)
           ((shop_view True)\<lparr>request := Some post_confirm\<rparr>) [] None"
proof -
  have h: "spec_route post_confirm = Some ConfirmExpressPayment"
    by (simp add: spec_route_def post_confirm_def)
  have m: "http_method post_confirm = ''POST'' \<and> ''token'' \<in> dom (POST post_confirm)
           \<and> ''PayerID'' \<in> dom (POST post_confirm)"
    by (simp add: post_confirm_def)
  from call_follows_spec_route
         [OF h, of "journal_env True True ack_success" "shop_view True" "[]"] h m
  show ?thesis by blast
qed

subsection \<open>The express flow\<close>

lemma journal_env_simps:
  "form_is_valid (journal_env valid paid answer) f = valid"
  "form_errors (journal_env valid paid answer) f = ''acct: This field is required.''"
  "form_save (journal_env valid paid answer) f = [''from form'']"
  "PayPalPaymentInfo (journal_env valid paid answer) = []"
  "set_flag (journal_env valid paid answer) flag obj = obj @ [flag]"
  "init (journal_env valid paid answer) r obj = obj @ [''init'']"
  "process (journal_env valid paid answer) r i obj = (paid, obj @ [''process''])"
  "setExpressCheckout (journal_env valid paid answer) r i = answer"
  "doExpressCheckoutPayment (journal_env valid paid answer) r i = answer"
  "urlencode (journal_env valid paid answer) = urlencode_plain"
  by (simp_all add: journal_env_def)

lemma shop_view_simps:
  "item (shop_view test) = Some shop_item"
  "payment_form_cls (shop_view test) = ''PaymentForm''"
  "payment_template (shop_view test) = ''pro/payment.html''"
  "confirm_form_cls (shop_view test) = ''ConfirmForm''"
  "confirm_template (shop_view test) = ''pro/confirm.html''"
  "success_url (shop_view test) = ''?success''"
  "fail_url (shop_view test) = None"
  "express_endpoint (shop_view test)
     = (if test then SANDBOX_EXPRESS_ENDPOINT else EXPRESS_ENDPOINT)"
  "request (shop_view test) = None"
  by (simp_all add: shop_view_def PayPalPro_init_def)

lemma call_express:
  assumes "http_method req = ''GET''" and "''express'' \<in> dom (GET req)"
  shows "call env self log req = redirect_to_express env (self\<lparr>request := Some req\<rparr>) log"
  using assms by (simp add: call_routes)

lemma call_confirm:
  assumes "http_method req \<noteq> ''GET''"
    and "POST req ''token'' = Some token" and "POST req ''PayerID'' = Some payerid"
  shows "call env self log req = validate_confirm_form env (self\<lparr>request := Some req\<rparr>) log"
  using assms by (auto simp: call_routes)

lemma render_payment_form_Some:
  assumes "request self = Some req"
  shows "render_payment_form self log (Some c) =
           (Inr (Rendered (payment_template self)
                   (c(''form'' \<mapsto> CtxForm (Form (payment_form_cls self) None None))) req),
            self, log)"
  using assms by (simp add: render_payment_form_def context_or_empty_def)

text \<open>
  C6. For a GET carrying \<^verbatim>\<open>express\<close>: when the answer of \<^verbatim>\<open>setExpressCheckout\<close> has
  \<^verbatim>\<open>ACK\<close> equal to \<^verbatim>\<open>Success\<close> and a \<^verbatim>\<open>TOKEN\<close>, and the item holds \<^verbatim>\<open>amt\<close>,
  \<^verbatim>\<open>returnurl\<close> and \<^verbatim>\<open>cancelurl\<close>, the response is a redirect to the express-checkout
  address followed by the url-encoding of exactly \<^verbatim>\<open>token\<close>, \<^verbatim>\<open>AMT\<close>, \<^verbatim>\<open>RETURNURL\<close> and
  \<^verbatim>\<open>CANCELURL\<close> with those values; for any other answer the payment template is rendered
  with the message that PayPal could not be contacted. Either way the only call made is
  \<^verbatim>\<open>setExpressCheckout\<close>: nothing is saved.
\<close>

theorem initiate_express_redirects_or_rerenders:
  assumes "http_method req = ''GET''" and "''express'' \<in> dom (GET req)"
  shows "(setExpressCheckout env req (item self) ''ACK'' = Some ''Success''
            \<and> setExpressCheckout env req (item self) ''TOKEN'' = Some token
            \<and> item self = Some it \<and> it ''amt'' = Some amt
            \<and> it ''returnurl'' = Some returnurl \<and> it ''cancelurl'' = Some cancelurl
          \<longrightarrow> fst (call env self log req) =
                Inr (HttpResponseRedirect
                       (''https://www.sandbox.paypal.com/webscr?cmd=_express-checkout&''
                          @ urlencode env [''token'' \<mapsto> token, ''AMT'' \<mapsto> amt,
                                           ''RETURNURL'' \<mapsto> returnurl,
                                           ''CANCELURL'' \<mapsto> cancelurl])))
       \<and> (\<not> (setExpressCheckout env req (item self) ''ACK'' = Some ''Success''
               \<and> ''TOKEN'' \<in> dom (setExpressCheckout env req (item self)))
          \<longrightarrow> fst (call env self log req) =
                Inr (Rendered (payment_template self)
                       [''errors'' \<mapsto> CtxStr
                          ''There was a problem contacting PayPal. Please try again later.'',
                        ''form'' \<mapsto> CtxForm (Form (payment_form_cls self) None None)]
                       req))
       \<and> snd (snd (call env self log req)) = log @ [SetExpressCheckout (item self)]
       \<and> filter is_Save (log @ [SetExpressCheckout (item self)]) = filter is_Save log"
proof -
  let ?self = "self\<lparr>request := Some req\<rparr>"
  have r: "request ?self = Some req" by simp
  have c: "call env self log req = redirect_to_express env ?self log"
    by (rule call_express [OF assms])
  have a: "fst (redirect_to_express env ?self log) =
             Inr (HttpResponseRedirect
                    (''https://www.sandbox.paypal.com/webscr?cmd=_express-checkout&''
                       @ urlencode env [''token'' \<mapsto> token, ''AMT'' \<mapsto> amt,
                                        ''RETURNURL'' \<mapsto> returnurl,
                                        ''CANCELURL'' \<mapsto> cancelurl]))"
    if "setExpressCheckout env req (item self) ''ACK'' = Some ''Success''"
      "setExpressCheckout env req (item self) ''TOKEN'' = Some token"
      "item self = Some it" "it ''amt'' = Some amt"
      "it ''returnurl'' = Some returnurl" "it ''cancelurl'' = Some cancelurl"
    using that by (simp add: redirect_to_express_def Let_def percent_s_SANDBOX dom_def)
  have b: "fst (redirect_to_express env ?self log) =
             Inr (Rendered (payment_template self)
                    [''errors'' \<mapsto> CtxStr
                       ''There was a problem contacting PayPal. Please try again later.'',
                     ''form'' \<mapsto> CtxForm (Form (payment_form_cls self) None None)]
                    req)"
    if "\<not> (setExpressCheckout env req (item self) ''ACK'' = Some ''Success''
            \<and> ''TOKEN'' \<in> dom (setExpressCheckout env req (item self)))"
    using that by (auto simp: redirect_to_express_def Let_def render_payment_form_Some [OF r])
  have l: "snd (snd (redirect_to_express env ?self log)) = log @ [SetExpressCheckout (item self)]"
    by (simp add: redirect_to_express_def Let_def render_payment_form_Some [OF r]
             split: option.splits)
  have s: "filter is_Save (log @ [SetExpressCheckout (item self)]) = filter is_Save log"
    by simp
  show ?thesis unfolding c using a b l s by blast
qed

theorem initiate_express_redirects_or_rerenders_witness:
  "http_method get_express = ''GET'' \<and> ''express'' \<in> dom (GET get_express)
   \<and> fst (call (journal_env True True ack_success) (shop_view True) [] get_express) =
       Inr (HttpResponseRedirect
              ''https://www.sandbox.paypal.com/webscr?cmd=_express-checkout&token=abc&AMT=10.00&RETURNURL=http://shop/ok&CANCELURL=http://shop/no'')
   \<and> fst (call (journal_env True True ack_failure) (shop_view True) [] get_express) =
       Inr (Rendered ''pro/payment.html''
              [''errors'' \<mapsto> CtxStr
                 ''There was a problem contacting PayPal. Please try again later.'',
               ''form'' \<mapsto> CtxForm (Form ''PaymentForm'' None None)]
              get_express)
   \<and> snd (snd (call (journal_env True True ack_failure) (shop_view True) [] get_express))
       = [SetExpressCheckout (Some shop_item)]"
proof -
  have g: "http_method get_express = ''GET''" "''express'' \<in> dom (GET get_express)"
    by (simp_all add: get_express_def)
  from initiate_express_redirects_or_rerenders
         [OF g, of "journal_env True True ack_success" "shop_view True" "''abc''" shop_item
            "''10.00''" "''http://shop/ok''" "''http://shop/no''" "[]"]
  have ok: "fst (call (journal_env True True ack_success) (shop_view True) [] get_express) =
       Inr (HttpResponseRedirect
              ''https://www.sandbox.paypal.com/webscr?cmd=_express-checkout&token=abc&AMT=10.00&RETURNURL=http://shop/ok&CANCELURL=http://shop/no'')"
    by (simp add: journal_env_simps shop_view_simps ack_success_def shop_item_def
             urlencode_plain_def)
  from initiate_express_redirects_or_rerenders
         [OF g, of "journal_env True True ack_failure" "shop_view True" _ _ _ _ _ "[]"]
  have no: "fst (call (journal_env True True ack_failure) (shop_view True) [] get_express) =
       Inr (Rendered ''pro/payment.html''
              [''errors'' \<mapsto> CtxStr
                 ''There was a problem contacting PayPal. Please try again later.'',
               ''form'' \<mapsto> CtxForm (Form ''PaymentForm'' None None)]
              get_express)"
    and lg: "snd (snd (call (journal_env True True ack_failure) (shop_view True) [] get_express))
       = [SetExpressCheckout (Some shop_item)]"
    by (simp_all add: journal_env_simps shop_view_simps ack_failure_def)
  from g ok no lg show ?thesis by simp
qed

text \<open>
  C7. For a POST (any method but GET) whose body holds \<^verbatim>\<open>token\<close> and \<^verbatim>\<open>PayerID\<close>, on a view
  that was given an item: the two values are stored in the item under \<^verbatim>\<open>token\<close> and
  \<^verbatim>\<open>payerid\<close>, \<^verbatim>\<open>doExpressCheckoutPayment\<close> is called once, with the item so updated, and
  it is the only call; an answer with \<^verbatim>\<open>ACK\<close> equal to \<^verbatim>\<open>Success\<close> gives a redirect to
  \<^verbatim>\<open>success_url\<close>, any other answer renders the payment template with the message that
  processing the payment failed.
\<close>

theorem confirm_express_payment_outcome:
  assumes "http_method req \<noteq> ''GET''"
    and "POST req ''token'' = Some token" and "POST req ''PayerID'' = Some payerid"
    and "item self = Some it"
  shows "call env self log req =
           (let augmented = it(''token'' \<mapsto> token, ''payerid'' \<mapsto> payerid)
            in (Inr (if doExpressCheckoutPayment env req (Some augmented) ''ACK'' = Some ''Success''
                     then HttpResponseRedirect (success_url self)
                     else Rendered (payment_template self)
                            [''errors'' \<mapsto> CtxStr
                               ''There was a problem processing the payment. Please check your information and try again.'',
                             ''form'' \<mapsto> CtxForm (Form (payment_form_cls self) None None)]
                            req),
                self\<lparr>request := Some req, item := Some augmented\<rparr>,
                log @ [DoExpressCheckoutPayment (Some augmented)]))"
  unfolding call_confirm [OF assms(1-3)]
  using assms(2-4)
  by (simp add: validate_confirm_form_def Let_def render_payment_form_Some)

theorem confirm_express_payment_outcome_witness:
  "http_method post_confirm \<noteq> ''GET''
   \<and> POST post_confirm ''token'' = Some ''abc'' \<and> POST post_confirm ''PayerID'' = Some ''P1''
   \<and> item (shop_view True) = Some shop_item
   \<and> call (journal_env True True ack_success) (shop_view True) [] post_confirm =
       (Inr (HttpResponseRedirect ''?success''),
        (shop_view True)\<lparr>request := Some post_confirm,
                          item := Some (shop_item(''token'' \<mapsto> ''abc'', ''payerid'' \<mapsto> ''P1''))\<rparr>,
        [DoExpressCheckoutPayment (Some (shop_item(''token'' \<mapsto> ''abc'', ''payerid'' \<mapsto> ''P1'')))])"
proof -
  have p: "http_method post_confirm \<noteq> ''GET''" "POST post_confirm ''token'' = Some ''abc''"
    "POST post_confirm ''PayerID'' = Some ''P1''"
    by (simp_all add: post_confirm_def)
  have i: "item (shop_view True) = Some shop_item"
    by (simp add: shop_view_simps)
  from confirm_express_payment_outcome
         [OF p i, of "journal_env True True ack_success" "[]"]
  show ?thesis
    using p i by (simp add: Let_def journal_env_simps shop_view_simps ack_success_def)
qed

text \<open>
  C3. The docstring of the class promises the sandbox only for \<^verbatim>\<open>test=True\<close>, and
  \<^verbatim>\<open>__init__\<close> stores the matching address in \<^verbatim>\<open>express_endpoint\<close>; yet a view built
  with \<^verbatim>\<open>test=False\<close>, whose \<^verbatim>\<open>express_endpoint\<close> is the production address, answers
  a successful \<^verbatim>\<open>?express\<close> request with a redirect to the sandbox address:
  \<^verbatim>\<open>redirect_to_express\<close> formats \<^verbatim>\<open>SANDBOX_EXPRESS_ENDPOINT\<close>, not the stored field.
\<close>

theorem production_view_redirects_to_sandbox:
  "express_endpoint (shop_view False) = EXPRESS_ENDPOINT
   \<and> fst (call (journal_env True True ack_success) (shop_view False) [] get_express) =
       Inr (HttpResponseRedirect
              ''https://www.sandbox.paypal.com/webscr?cmd=_express-checkout&token=abc&AMT=10.00&RETURNURL=http://shop/ok&CANCELURL=http://shop/no'')"
proof -
  have g: "http_method get_express = ''GET''" "''express'' \<in> dom (GET get_express)"
    by (simp_all add: get_express_def)
  have "fst (redirect_to_express (journal_env True True ack_success)
               ((shop_view False)\<lparr>request := Some get_express\<rparr>) []) =
       Inr (HttpResponseRedirect
              ''https://www.sandbox.paypal.com/webscr?cmd=_express-checkout&token=abc&AMT=10.00&RETURNURL=http://shop/ok&CANCELURL=http://shop/no'')"
    by (simp add: redirect_to_express_def Let_def journal_env_simps shop_view_simps
          ack_success_def shop_item_def urlencode_plain_def percent_s_SANDBOX)
  then show ?thesis
    unfolding call_express [OF g] by (simp add: shop_view_simps)
qed

subsection \<open>What a call leaves behind in the instance\<close>

text \<open>
  C8, as stated, fails: after a POST carrying \<^verbatim>\<open>token\<close> and \<^verbatim>\<open>PayerID\<close> the item of the
  view is no longer the item it was built with (\<^verbatim>\<open>self.item.update(pp_data)\<close>), and the
  \<^verbatim>\<open>request\<close> attribute, absent before, now holds the request.
\<close>

theorem confirm_post_changes_item_counterexample:
  "item (fst (snd (call (journal_env True True ack_success) (shop_view True) [] post_confirm)))
     \<noteq> item (shop_view True)
   \<and> request (fst (snd (call (journal_env True True ack_success) (shop_view True) []
                          post_confirm)))
     \<noteq> request (shop_view True)"
proof -
  have p: "http_method post_confirm \<noteq> ''GET''" "POST post_confirm ''token'' = Some ''abc''"
    "POST post_confirm ''PayerID'' = Some ''P1''"
    by (simp_all add: post_confirm_def)
  have c: "fst (snd (call (journal_env True True ack_success) (shop_view True) [] post_confirm))
           = (shop_view True)\<lparr>request := Some post_confirm,
                item := Some (shop_item(''token'' \<mapsto> ''abc'', ''payerid'' \<mapsto> ''P1''))\<rparr>"
    unfolding call_confirm [OF p]
    using p by (simp add: validate_confirm_form_def Let_def render_payment_form_Some
                  shop_view_simps journal_env_simps ack_success_def)
  have "shop_item(''token'' \<mapsto> ''abc'', ''payerid'' \<mapsto> ''P1'') \<noteq> shop_item"
  proof
    assume "shop_item(''token'' \<mapsto> ''abc'', ''payerid'' \<mapsto> ''P1'') = shop_item"
    then have "(shop_item(''token'' \<mapsto> ''abc'', ''payerid'' \<mapsto> ''P1'')) ''token''
                 = shop_item ''token''"
      by simp
    then show False by (simp add: shop_item_def)
  qed
  then show ?thesis unfolding c by (simp add: shop_view_simps)
qed

text \<open>
  C8, amended. A call changes two fields of the instance and no other: \<^verbatim>\<open>request\<close>
  becomes the request just received, and \<^verbatim>\<open>item\<close> is changed only by
  \<^verbatim>\<open>validate_confirm_form\<close> (a request that is not a GET, with \<^verbatim>\<open>token\<close> and \<^verbatim>\<open>PayerID\<close>
  in its body, on a view that has an item), which stores the two submitted values in it
  under \<^verbatim>\<open>token\<close> and \<^verbatim>\<open>payerid\<close>. The form classes, the templates, the success and fail
  targets and the endpoint are as they were.
\<close>

theorem call_changes_only_request_and_item:
  "fst (snd (call env self log req)) =
     self\<lparr>request := Some req,
          item := (if http_method req = ''GET'' then item self
                   else case (POST req ''token'', POST req ''PayerID'', item self) of
                          (Some token, Some payerid, Some it) \<Rightarrow>
                            Some (it(''token'' \<mapsto> token, ''payerid'' \<mapsto> payerid))
                        | _ \<Rightarrow> item self)\<rparr>"
proof -
  let ?self = "self\<lparr>request := Some req\<rparr>"
  have r: "request ?self = Some req" by simp
  have rp: "fst (snd (render_payment_form ?self log c)) = ?self" for c
    by (simp add: render_payment_form_def Let_def)
  have rc: "fst (snd (render_confirm_form ?self log c)) = ?self" for c
    by (simp add: render_confirm_form_def Let_def split: option.splits)
  have re: "fst (snd (redirect_to_express env ?self log)) = ?self"
    by (simp add: redirect_to_express_def Let_def render_payment_form_def split: option.splits)
  have vp: "fst (snd (validate_payment_form env ?self log c)) = ?self" for c
    using validate_payment_form_log [OF r, of env log c] by auto
  have vc: "fst (snd (validate_confirm_form env ?self log)) =
              ?self\<lparr>item := (case (POST req ''token'', POST req ''PayerID'', item self) of
                          (Some token, Some payerid, Some it) \<Rightarrow>
                            Some (it(''token'' \<mapsto> token, ''payerid'' \<mapsto> payerid))
                        | _ \<Rightarrow> item self)\<rparr>"
    by (simp add: validate_confirm_form_def Let_def render_payment_form_def split: option.splits)
  show ?thesis
    unfolding call_routes
    by (auto simp: rp rc re vp vc dom_def split: option.splits)
qed

subsection \<open>Exceptions\<close>

text \<open>
  C9, as stated, fails: on a view whose item has no \<^verbatim>\<open>amt\<close>, a \<^verbatim>\<open>?express\<close> request that
  the gateway answers with success and a token raises \<^verbatim>\<open>KeyError\<close> out of
  \<^verbatim>\<open>redirect_to_express\<close>; no response is returned.
\<close>

theorem express_without_amt_raises_counterexample:
  "fst (call (journal_env True True ack_success) ((shop_view True)\<lparr>item := Some Map.empty\<rparr>) []
          get_express)
     = Inl (KeyError ''amt'')"
proof -
  have g: "http_method get_express = ''GET''" "''express'' \<in> dom (GET get_express)"
    by (simp_all add: get_express_def)
  show ?thesis
    unfolding call_express [OF g]
    by (simp add: redirect_to_express_def Let_def journal_env_simps ack_success_def)
qed

text \<open>
  C9, amended. The view catches nothing, and its own subscripts are its only source of
  exceptions. On a view whose item is a dict holding \<^verbatim>\<open>amt\<close>, \<^verbatim>\<open>returnurl\<close> and
  \<^verbatim>\<open>cancelurl\<close>, every request, whichever handler it is routed to, ends in a rendered
  template or a redirect (the collaborators being taken to return).
\<close>

theorem call_responds_when_item_complete:
  assumes "item self = Some it"
    and "{''amt'', ''returnurl'', ''cancelurl''} \<subseteq> dom it"
  shows "\<exists>resp. fst (call env self log req) = Inr resp"
proof -
  let ?self = "self\<lparr>request := Some req\<rparr>"
  have r: "request ?self = Some req" by simp
  have rp: "\<exists>resp. fst (render_payment_form ?self log c) = Inr resp" for c
    by (simp add: render_payment_form_def Let_def)
  have rc: "\<exists>resp. fst (render_confirm_form ?self log c) = Inr resp"
    if "''token'' \<in> dom (GET req)" "''PayerID'' \<in> dom (GET req)" for c
    using that by (auto simp: render_confirm_form_def Let_def split: option.splits)
  have re: "\<exists>resp. fst (redirect_to_express env ?self log) = Inr resp"
    using assms
    by (auto simp: redirect_to_express_def Let_def render_payment_form_def split: option.splits)
  have vp: "\<exists>resp. fst (validate_payment_form env ?self log c) = Inr resp" for c
    using validate_payment_form_log [OF r, of env log c] by auto
  have vc: "\<exists>resp. fst (validate_confirm_form env ?self log) = Inr resp"
    if "''token'' \<in> dom (POST req)" "''PayerID'' \<in> dom (POST req)"
    using that assms(1)
    by (auto simp: validate_confirm_form_def Let_def render_payment_form_def split: option.splits)
  show ?thesis
    unfolding call_routes using rp rc re vp vc by auto
qed

theorem call_responds_when_item_complete_witness:
  "item (shop_view True) = Some shop_item
   \<and> {''amt'', ''returnurl'', ''cancelurl''} \<subseteq> dom shop_item
   \<and> (\<exists>resp. fst (call (journal_env True True ack_success) (shop_view True) [] get_express)
                = Inr resp)"
proof -
  have i: "item (shop_view True) = Some shop_item" by (simp add: shop_view_simps)
  have d: "{''amt'', ''returnurl'', ''cancelurl''} \<subseteq> dom shop_item"
    by (simp add: shop_item_def)
  from call_responds_when_item_complete
         [OF i d, of "journal_env True True ack_success" "[]" get_express] i d
  show ?thesis by blast
qed

end
